theory Spec2Isabelle
  imports Complex_Main
begin

section \<open>Exceptions and results\<close>

text \<open>
  Every \<^verbatim>\<open>raise\<close> and every failing \<^verbatim>\<open>assert\<close> of the Python sources is a value:
  a function that may raise returns \<open>exn + 'a\<close>, with \<open>Inl\<close> the exception that
  leaves the function.
\<close>

datatype exn =
    AssertionError
  | ValueError
  | TypeError
  | KeyError
  | IndexError
  | SubscriptError
  | ZeroDivisionError
  | IntegrityError
  | OperationalError
  | InterfaceError
  | CurrencyDoesNotExistError
  | ParsingError
  | OtherError string

section \<open>utils/decorators.py: rangetest\<close>

text \<open>
  \<^verbatim>\<open>rangetest(strict_range, **kargs)\<close> wraps \<open>func\<close>. The wrapper receives the positional
  arguments \<open>args\<close> and the keyword arguments \<open>kwargs\<close> of one call; \<open>allargs\<close> are the
  names of the positional parameters of \<open>func\<close> (\<^verbatim>\<open>code.co_varnames[:code.co_argcount]\<close>),
  \<open>privates\<close> the guarded names with their bounds, in the order of the decorator's
  keyword arguments. Python's comparisons \<^verbatim>\<open><\<close> and \<^verbatim>\<open><=\<close> on the argument values
  are the parameters \<open>lt\<close> and \<open>le\<close>; they may raise (\<^verbatim>\<open>TypeError\<close> on values that
  do not compare).
\<close>

text \<open>\<^verbatim>\<open>assert low < value < high\<close>: a chained comparison, the second one is evaluated
  only when the first one holds.\<close>

definition assert_in_range ::
  "('v \<Rightarrow> 'v \<Rightarrow> exn + bool) \<Rightarrow> 'v \<Rightarrow> 'v \<Rightarrow> 'v \<Rightarrow> exn + unit" where
  "assert_in_range cmp low val high =
     (case cmp low val of
        Inl e \<Rightarrow> Inl e
      | Inr False \<Rightarrow> Inl AssertionError
      | Inr True \<Rightarrow>
          (case cmp val high of
             Inl e \<Rightarrow> Inl e
           | Inr False \<Rightarrow> Inl AssertionError
           | Inr True \<Rightarrow> Inr ()))"

text \<open>\<^verbatim>\<open>allvars.index(argname)\<close>, called only when \<open>argname\<close> is in \<open>allvars\<close>.\<close>

fun index_of :: "'a list \<Rightarrow> 'a \<Rightarrow> nat" where
  "index_of [] a = 0"
| "index_of (x # xs) a = (if x = a then 0 else Suc (index_of xs a))"

text \<open>The loop \<^verbatim>\<open>for argname, (low, high) in privates.items()\<close> of the wrapper.\<close>

fun check_privates ::
  "('v \<Rightarrow> 'v \<Rightarrow> exn + bool) \<Rightarrow> (string \<times> 'v \<times> 'v) list \<Rightarrow> string list \<Rightarrow>
   'v list \<Rightarrow> (string \<times> 'v) list \<Rightarrow> exn + unit" where
  "check_privates cmp [] allvars args kwargs = Inr ()"
| "check_privates cmp ((argname, low, high) # rest) allvars args kwargs =
     (case map_of kwargs argname of
        Some val \<Rightarrow>
          (case assert_in_range cmp low val high of
             Inl e \<Rightarrow> Inl e
           | Inr u \<Rightarrow> check_privates cmp rest allvars args kwargs)
      | None \<Rightarrow>
          if argname \<in> set allvars then
            (case assert_in_range cmp low (args ! index_of allvars argname) high of
               Inl e \<Rightarrow> Inl e
             | Inr u \<Rightarrow> check_privates cmp rest allvars args kwargs)
          else check_privates cmp rest allvars args kwargs)"

definition rangetest ::
  "('v \<Rightarrow> 'v \<Rightarrow> exn + bool) \<Rightarrow> ('v \<Rightarrow> 'v \<Rightarrow> exn + bool) \<Rightarrow> bool \<Rightarrow>
   (string \<times> 'v \<times> 'v) list \<Rightarrow> string list \<Rightarrow>
   ('v list \<Rightarrow> (string \<times> 'v) list \<Rightarrow> exn + 'r) \<Rightarrow>
   'v list \<Rightarrow> (string \<times> 'v) list \<Rightarrow> exn + 'r" where
  "rangetest lt le strict_range privates allargs func args kwargs =
     (let allvars = take (length args) allargs in
      case check_privates (if strict_range then lt else le) privates allvars args kwargs of
        Inl e \<Rightarrow> Inl e
      | Inr u \<Rightarrow> func args kwargs)"

section \<open>Texts\<close>

text \<open>A text is the list of its bytes; the texts the sources compare and change case of
  are ASCII.\<close>


definition upper_char :: "char \<Rightarrow> char" where
  "upper_char c =
     (case map_of (zip ''abcdefghijklmnopqrstuvwxyz'' ''ABCDEFGHIJKLMNOPQRSTUVWXYZ'') c of
        Some u \<Rightarrow> u | None \<Rightarrow> c)"


definition upper :: "string \<Rightarrow> string" where
  "upper s = map upper_char s"

section \<open>Dictionaries\<close>

text \<open>A Python dictionary with text keys is the list of its items in insertion order,
  each key once.\<close>

text \<open>\<^verbatim>\<open>del d[k]\<close> on a key that is present.\<close>

definition dict_del :: "(string \<times> 'v) list \<Rightarrow> string \<Rightarrow> (string \<times> 'v) list" where
  "dict_del d k = filter (\<lambda>kv. fst kv \<noteq> k) d"

text \<open>\<^verbatim>\<open>d[k] = v\<close>: a present key keeps its place, a new key goes last.\<close>

fun dict_set :: "(string \<times> 'v) list \<Rightarrow> string \<Rightarrow> 'v \<Rightarrow> (string \<times> 'v) list" where
  "dict_set [] k v = [(k, v)]"
| "dict_set ((k', v') # d) k v = (if k' = k then (k, v) # d else (k', v') # dict_set d k v)"

section \<open>Python's datetime, as far as the sources use it\<close>

text \<open>
  A \<^verbatim>\<open>datetime.datetime\<close> object. \<open>tzinfo\<close> is \<open>None\<close> for a naive value and
  \<open>Some s\<close> for a fixed offset of \<open>s\<close> seconds east of UTC (\<^verbatim>\<open>datetime.timezone\<close>).
\<close>

record datetime =
  year :: int
  month :: int
  day :: int
  hour :: int
  minute :: int
  second :: int
  microsecond :: int
  tzinfo :: "int option"

definition is_leap :: "int \<Rightarrow> bool" where
  "is_leap y = (y mod 4 = 0 \<and> (if y mod 100 = 0 then y mod 400 = 0 else True))"

definition days_in_month :: "int \<Rightarrow> int \<Rightarrow> int" where
  "days_in_month y m =
     (if m = 2 then (if is_leap y then 29 else 28)
      else if m = 4 \<or> m = 6 \<or> m = 9 \<or> m = 11 then 30 else 31)"

text \<open>The checks of the constructor (\<^verbatim>\<open>_check_date_fields\<close>, \<^verbatim>\<open>_check_time_fields\<close>);
  a value that fails them cannot be built: \<^verbatim>\<open>ValueError\<close>.\<close>

definition check_date_fields :: "datetime \<Rightarrow> bool" where
  "check_date_fields d =
     (1 \<le> year d \<and> year d \<le> 9999 \<and> 1 \<le> month d \<and> month d \<le> 12 \<and>
      1 \<le> day d \<and> day d \<le> days_in_month (year d) (month d))"

definition check_time_fields :: "datetime \<Rightarrow> bool" where
  "check_time_fields d =
     (0 \<le> hour d \<and> hour d \<le> 23 \<and> 0 \<le> minute d \<and> minute d \<le> 59 \<and>
      0 \<le> second d \<and> second d \<le> 59 \<and> 0 \<le> microsecond d \<and> microsecond d \<le> 999999)"

definition valid_datetime :: "datetime \<Rightarrow> bool" where
  "valid_datetime d =
     (check_date_fields d \<and> check_time_fields d \<and>
      (case tzinfo d of None \<Rightarrow> True | Some s \<Rightarrow> - 86400 < s \<and> s < 86400))"

text \<open>\<^verbatim>\<open>d.replace(...)\<close> builds a new object from the changed fields, so the
  constructor's checks run on the result.\<close>

definition construct :: "datetime \<Rightarrow> exn + datetime" where
  "construct d = (if check_date_fields d \<and> check_time_fields d then Inr d else Inl ValueError)"

text \<open>\<^verbatim>\<open>dt.timezone(dt.timedelta(0, s))\<close>: the offset must be strictly between minus and
  plus one day.\<close>

definition timezone :: "int \<Rightarrow> exn + int" where
  "timezone s = (if - 86400 < s \<and> s < 86400 then Inr s else Inl ValueError)"

subsection \<open>utils/dt.py\<close>

definition add_offset :: "datetime \<Rightarrow> int \<Rightarrow> exn + datetime" where
  "add_offset d utcoffset =
     (case timezone (utcoffset * 60 * 60) of
        Inl e \<Rightarrow> Inl e
      | Inr tz \<Rightarrow> construct (d\<lparr>tzinfo := Some tz\<rparr>))"

text \<open>\<^verbatim>\<open>utcoffset in range(-11, 13)\<close>.\<close>

definition offset_in_range :: "int \<Rightarrow> bool" where
  "offset_in_range utcoffset = (- 11 \<le> utcoffset \<and> utcoffset < 13)"

text \<open>\<open>utcnow\<close> is what \<^verbatim>\<open>dt.datetime.utcnow()\<close> returns at the call: a naive value.
  Python's \<^verbatim>\<open>//\<close> and \<^verbatim>\<open>%\<close> on integers round towards minus infinity, as \<open>div\<close> and
  \<open>mod\<close> on \<open>int\<close> do.\<close>

definition get_current_datetime :: "datetime \<Rightarrow> int \<Rightarrow> exn + datetime" where
  "get_current_datetime utcnow utcoffset =
     (if offset_in_range utcoffset then
        (case construct (utcnow\<lparr>day := day utcnow + ((hour utcnow + utcoffset) div 24),
                                 hour := (hour utcnow + utcoffset) mod 24,
                                 microsecond := 0\<rparr>) of
           Inl e \<Rightarrow> Inl e
         | Inr n \<Rightarrow> add_offset n utcoffset)
      else Inl AssertionError)"

text \<open>Subtraction of two aware values compares the instants: \<^verbatim>\<open>toordinal\<close>, the time of
  day and the offset, in microseconds.\<close>

definition days_before_year :: "int \<Rightarrow> int" where
  "days_before_year y = (y - 1) * 365 + (y - 1) div 4 - (y - 1) div 100 + (y - 1) div 400"

fun days_before_month_nat :: "int \<Rightarrow> nat \<Rightarrow> int" where
  "days_before_month_nat y 0 = 0"
| "days_before_month_nat y (Suc k) = days_before_month_nat y k + days_in_month y (int (Suc k))"

definition days_before_month :: "int \<Rightarrow> int \<Rightarrow> int" where
  "days_before_month y m = days_before_month_nat y (nat (m - 1))"

definition toordinal :: "datetime \<Rightarrow> int" where
  "toordinal d = days_before_year (year d) + days_before_month (year d) (month d) + day d"

definition utc_seconds :: "datetime \<Rightarrow> int" where
  "utc_seconds d =
     toordinal d * 86400 + hour d * 3600 + minute d * 60 + second d
       - (case tzinfo d of None \<Rightarrow> 0 | Some s \<Rightarrow> s)"



subsection \<open>Text forms of a datetime\<close>

definition digit_char :: "nat \<Rightarrow> char" where
  "digit_char n = ''0123456789'' ! (n mod 10)"

text \<open>The \<open>w\<close> low-order decimal digits of \<open>n\<close>, zero padded.\<close>

fun show_digits :: "nat \<Rightarrow> nat \<Rightarrow> string" where
  "show_digits 0 n = []"
| "show_digits (Suc w) n = show_digits w (n div 10) @ [digit_char n]"

text \<open>\<^verbatim>\<open>d.strftime('%Y-%m-%d %H:%M:%S')\<close>, for years of four digits.\<close>

definition strftime_ymd_hms :: "datetime \<Rightarrow> string" where
  "strftime_ymd_hms d =
     show_digits 4 (nat (year d)) @ ''-'' @ show_digits 2 (nat (month d)) @ ''-'' @
     show_digits 2 (nat (day d)) @ '' '' @ show_digits 2 (nat (hour d)) @ '':'' @
     show_digits 2 (nat (minute d)) @ '':'' @ show_digits 2 (nat (second d))"

definition show_offset :: "int \<Rightarrow> string" where
  "show_offset s =
     (let a = nat \<bar>s\<bar> in
      (if s < 0 then ''-'' else ''+'') @ show_digits 2 (a div 3600) @ '':'' @
      show_digits 2 ((a mod 3600) div 60) @
      (if a mod 60 = 0 then [] else '':'' @ show_digits 2 (a mod 60)))"

text \<open>\<^verbatim>\<open>str(d)\<close>, which is \<^verbatim>\<open>d.isoformat(sep=' ')\<close>.\<close>

definition datetime_str :: "datetime \<Rightarrow> string" where
  "datetime_str d =
     strftime_ymd_hms d @
     (if microsecond d = 0 then [] else ''.'' @ show_digits 6 (nat (microsecond d))) @
     (case tzinfo d of None \<Rightarrow> [] | Some s \<Rightarrow> show_offset s)"

definition digit_val :: "char \<Rightarrow> nat option" where
  "digit_val c =
     map_of [(CHR ''0'', 0), (CHR ''1'', 1), (CHR ''2'', 2), (CHR ''3'', 3), (CHR ''4'', 4),
             (CHR ''5'', 5), (CHR ''6'', 6), (CHR ''7'', 7), (CHR ''8'', 8), (CHR ''9'', 9)] c"

text \<open>A non-empty run of decimal digits, read as a number.\<close>

fun read_digits :: "nat \<Rightarrow> string \<Rightarrow> nat option" where
  "read_digits acc [] = Some acc"
| "read_digits acc (c # cs) =
     (case digit_val c of None \<Rightarrow> None | Some v \<Rightarrow> read_digits (10 * acc + v) cs)"

definition read_number :: "string \<Rightarrow> nat option" where
  "read_number s = (if s = [] then None else read_digits 0 s)"

text \<open>
  The fixed-width text \<^verbatim>\<open>YYYY-MM-DD HH:MM:SS\<close> at the head of \<open>s\<close>: the six numbers and
  the rest of the text. This is the form \<open>strftime_ymd_hms\<close> and \<open>datetime_str\<close> write.
\<close>

definition read_ymd_hms :: "string \<Rightarrow> (datetime \<times> string) option" where
  "read_ymd_hms s =
     (if length s < 19 \<or> s ! 4 \<noteq> CHR ''-'' \<or> s ! 7 \<noteq> CHR ''-'' \<or> s ! 10 \<noteq> CHR '' '' \<or>
         s ! 13 \<noteq> CHR '':'' \<or> s ! 16 \<noteq> CHR '':'' then None
      else
        (case (read_number (take 4 s), read_number (take 2 (drop 5 s)),
               read_number (take 2 (drop 8 s)), read_number (take 2 (drop 11 s)),
               read_number (take 2 (drop 14 s)), read_number (take 2 (drop 17 s))) of
           (Some y, Some m, Some d, Some h, Some mi, Some sec) \<Rightarrow>
             Some (\<lparr>year = int y, month = int m, day = int d, hour = int h,
                    minute = int mi, second = int sec, microsecond = 0, tzinfo = None\<rparr>,
                   drop 19 s)
         | _ \<Rightarrow> None))"

text \<open>
  \<^verbatim>\<open>datetime.strptime(s, '%Y-%m-%d %H:%M:%S')\<close>. The model reads the fixed-width form;
  Python also takes one-digit fields and runs of blanks, which no text written by
  \<open>strftime_ymd_hms\<close> has. A text that does not match, or whose numbers are not a date,
  raises \<^verbatim>\<open>ValueError\<close>.
\<close>

definition strptime_ymd_hms :: "string \<Rightarrow> exn + datetime" where
  "strptime_ymd_hms s =
     (case read_ymd_hms s of
        None \<Rightarrow> Inl ValueError
      | Some (d, rest) \<Rightarrow> if rest = [] then construct d else Inl ValueError)"

text \<open>A UTC offset \<^verbatim>\<open>+HH:MM\<close>, \<^verbatim>\<open>-HH:MM\<close>, \<^verbatim>\<open>+HHMM\<close>, \<^verbatim>\<open>-HHMM\<close> or \<^verbatim>\<open>Z\<close>, in seconds.\<close>

definition read_offset :: "string \<Rightarrow> int option" where
  "read_offset s =
     (if s = ''Z'' then Some 0
      else if s = [] \<or> (hd s \<noteq> CHR ''+'' \<and> hd s \<noteq> CHR ''-'') then None
      else
        (let body = tl s;
             hm = (if length body = 5 \<and> body ! 2 = CHR '':''
                   then Some (take 2 body, drop 3 body)
                   else if length body = 4 then Some (take 2 body, drop 2 body)
                   else None)
         in case hm of
              None \<Rightarrow> None
            | Some (hh, mm) \<Rightarrow>
                (case (read_number hh, read_number mm) of
                   (Some h, Some m) \<Rightarrow>
                     if m \<le> 59
                     then Some ((if hd s = CHR ''-'' then - 1 else 1) * (int h * 3600 + int m * 60))
                     else None
                 | _ \<Rightarrow> None)))"

text \<open>\<^verbatim>\<open>datetime.strptime(s, '%Y-%m-%d %H:%M:%S%z')\<close>, on the same fixed-width form
  followed by an offset.\<close>

definition strptime_ymd_hms_z :: "string \<Rightarrow> exn + datetime" where
  "strptime_ymd_hms_z s =
     (case read_ymd_hms s of
        None \<Rightarrow> Inl ValueError
      | Some (d, rest) \<Rightarrow>
          (case read_offset rest of
             None \<Rightarrow> Inl ValueError
           | Some off \<Rightarrow>
               (case timezone off of
                  Inl e \<Rightarrow> Inl e
                | Inr tz \<Rightarrow> construct (d\<lparr>tzinfo := Some tz\<rparr>))))"

text \<open>An instant used in the examples: 31 January 2021, 23:30:00 UTC.\<close>

definition jan31_2330 :: datetime where
  "jan31_2330 = \<lparr>year = 2021, month = 1, day = 31, hour = 23, minute = 30, second = 0,
      microsecond = 0, tzinfo = None\<rparr>"

section \<open>Python values and SQLite values\<close>

text \<open>
  The values that cross the boundary between db.py and SQLite. \<open>PFloat\<close> is a finite
  float, idealised as a rational, \<open>PInf\<close> is \<^verbatim>\<open>float('inf')\<close>, and \<open>PObj\<close> stands for an
  object of any other type (the \<^verbatim>\<open>self\<close> of a method).
\<close>

datatype pyval =
    PNone
  | PBool bool
  | PInt int
  | PFloat rat
  | PInf
  | PStr string
  | PDatetime datetime
  | PList "pyval list"
  | PObj




text \<open>
  \<^verbatim>\<open>a < b\<close> and \<^verbatim>\<open>a <= b\<close> where one side is a number, as in the range checks of db.py,
  whose bounds are \<^verbatim>\<open>0\<close> and \<^verbatim>\<open>float('inf')\<close>: numbers (\<^verbatim>\<open>bool\<close> included) compare by
  value, and a number against anything else raises \<^verbatim>\<open>TypeError\<close>.
\<close>

datatype xnum = Fin rat | PosInf

fun num_of :: "pyval \<Rightarrow> xnum option" where
  "num_of (PBool b) = Some (Fin (if b then 1 else 0))"
| "num_of (PInt i) = Some (Fin (of_int i))"
| "num_of (PFloat r) = Some (Fin r)"
| "num_of PInf = Some PosInf"
| "num_of v = None"

fun xnum_less :: "xnum \<Rightarrow> xnum \<Rightarrow> bool" where
  "xnum_less (Fin a) (Fin b) = (a < b)"
| "xnum_less (Fin a) PosInf = True"
| "xnum_less PosInf b = False"


definition py_le :: "pyval \<Rightarrow> pyval \<Rightarrow> exn + bool" where
  "py_le a b =
     (case (num_of a, num_of b) of
        (Some x, Some y) \<Rightarrow> Inr (xnum_less x y \<or> x = y)
      | _ \<Rightarrow> Inl TypeError)"

text \<open>The storage classes of SQLite; \<open>SInf\<close> is the REAL value infinity.\<close>

datatype sqlval = SNull | SInt int | SReal rat | SInf | SText string

text \<open>
  Binding a Python value as a parameter of a statement. A \<^verbatim>\<open>datetime\<close> goes through
  the default adapter of the sqlite3 module (its \<^verbatim>\<open>isoformat(" ")\<close>); a value of an
  unsupported type makes \<^verbatim>\<open>execute\<close> raise.
\<close>

fun adapt :: "pyval \<Rightarrow> exn + sqlval" where
  "adapt PNone = Inr SNull"
| "adapt (PBool b) = Inr (SInt (if b then 1 else 0))"
| "adapt (PInt i) = Inr (SInt i)"
| "adapt (PFloat r) = Inr (SReal r)"
| "adapt PInf = Inr SInf"
| "adapt (PStr s) = Inr (SText s)"
| "adapt (PDatetime d) = Inr (SText (datetime_str d))"
| "adapt (PList xs) = Inl InterfaceError"
| "adapt PObj = Inl InterfaceError"

text \<open>What the sqlite3 module returns for a stored value. The connection is opened
  with \<^verbatim>\<open>PARSE_DECLTYPES\<close>, but the module has converters only for the declared types
  \<^verbatim>\<open>date\<close> and \<^verbatim>\<open>timestamp\<close>, which no column of db.py has.\<close>

fun py_of_sql :: "sqlval \<Rightarrow> pyval" where
  "py_of_sql SNull = PNone"
| "py_of_sql (SInt i) = PInt i"
| "py_of_sql (SReal r) = PFloat r"
| "py_of_sql SInf = PInf"
| "py_of_sql (SText s) = PStr s"

text \<open>An integer literal: an optional sign and decimal digits.\<close>

definition int_literal :: "string \<Rightarrow> int option" where
  "int_literal s =
     (case s of
        [] \<Rightarrow> None
      | c # cs \<Rightarrow>
          if c = CHR ''-'' then map_option (\<lambda>n. - int n) (read_number cs)
          else if c = CHR ''+'' then map_option int (read_number cs)
          else map_option int (read_number s))"

text \<open>Decimal digits of a natural number and of an integer, as SQLite writes them.\<close>

fun show_nat :: "nat \<Rightarrow> string" where
  "show_nat n = (if n < 10 then [digit_char n] else show_nat (n div 10) @ [digit_char n])"

definition show_int :: "int \<Rightarrow> string" where
  "show_int i = (if i < 0 then ''-'' @ show_nat (nat (- i)) else show_nat (nat i))"

text \<open>
  Type affinity of a column: what SQLite does to a value before storing it, and to a
  parameter before comparing it with the column. In the model a text is converted to
  a number when it is an integer literal; texts in the form of a real literal, and the
  text form of a real that is not an integer, are not modelled and stay as they are.
\<close>

datatype affinity = AffInteger | AffReal | AffNumeric | AffText

fun apply_affinity :: "affinity \<Rightarrow> sqlval \<Rightarrow> sqlval" where
  "apply_affinity AffText (SInt i) = SText (show_int i)"
| "apply_affinity AffText v = v"
| "apply_affinity AffReal (SInt i) = SReal (of_int i)"
| "apply_affinity AffReal (SText s) =
     (case int_literal s of Some i \<Rightarrow> SReal (of_int i) | None \<Rightarrow> SText s)"
| "apply_affinity AffReal v = v"
| "apply_affinity a (SText s) =
     (case int_literal s of Some i \<Rightarrow> SInt i | None \<Rightarrow> SText s)"
| "apply_affinity a (SReal r) = (if of_int \<lfloor>r\<rfloor> = r then SInt \<lfloor>r\<rfloor> else SReal r)"
| "apply_affinity a v = v"

text \<open>The comparison \<^verbatim>\<open>=\<close> of SQL, true or not true; a comparison with NULL is not
  true, and values of different storage classes are different.\<close>

fun sql_eq :: "sqlval \<Rightarrow> sqlval \<Rightarrow> bool" where
  "sql_eq (SInt a) (SInt b) = (a = b)"
| "sql_eq (SInt a) (SReal r) = (of_int a = r)"
| "sql_eq (SReal r) (SInt a) = (of_int a = r)"
| "sql_eq (SReal r) (SReal q) = (r = q)"
| "sql_eq SInf SInf = True"
| "sql_eq (SText s) (SText t) = (s = t)"
| "sql_eq a b = False"

text \<open>The number SQLite reads from a value in \<^verbatim>\<open>TOTAL\<close>; NULL adds nothing.\<close>

fun sql_number :: "sqlval \<Rightarrow> rat" where
  "sql_number (SInt i) = of_int i"
| "sql_number (SReal r) = r"
| "sql_number (SText s) = (case int_literal s of Some i \<Rightarrow> of_int i | None \<Rightarrow> 0)"
| "sql_number v = 0"

text \<open>\<^verbatim>\<open>CAST(x AS INT)\<close> of a real: towards zero.\<close>

definition cast_int :: "rat \<Rightarrow> int" where
  "cast_int x = (if 0 \<le> x then \<lfloor>x\<rfloor> else \<lceil>x\<rceil>)"

text \<open>
  \<^verbatim>\<open>datetime(x)\<close> of SQLite, as seconds on the scale of \<open>utc_seconds\<close>, for a text
  \<^verbatim>\<open>YYYY-MM-DD HH:MM:SS\<close> with an optional fraction of a second (dropped) and an optional
  offset \<^verbatim>\<open>+HH:MM\<close>, \<^verbatim>\<open>-HH:MM\<close> or \<^verbatim>\<open>Z\<close>: the forms \<open>datetime_str\<close> writes. For NULL, and
  for a text not of this form, the result is NULL (\<open>None\<close>). SQLite's other time values
  (Julian day numbers, dates without a time) are not stored by db.py and not modelled.
\<close>

fun drop_fraction :: "string \<Rightarrow> string" where
  "drop_fraction [] = []"
| "drop_fraction (c # cs) = (if c = CHR ''.'' then dropWhile (\<lambda>x. digit_val x \<noteq> None) cs else c # cs)"

definition sql_datetime :: "sqlval \<Rightarrow> int option" where
  "sql_datetime v =
     (case v of
        SText s \<Rightarrow>
          (case read_ymd_hms s of
             None \<Rightarrow> None
           | Some (d, rest) \<Rightarrow>
               if \<not> (1 \<le> month d \<and> month d \<le> 12 \<and> 1 \<le> day d \<and> day d \<le> 31 \<and>
                       hour d \<le> 24 \<and> minute d \<le> 59 \<and> second d \<le> 59) then None
               else
                 (let tz = drop_fraction rest in
                  if tz = [] then Some (utc_seconds d)
                  else if length tz = 6 then
                    (case read_offset tz of
                       None \<Rightarrow> None
                     | Some off \<Rightarrow> Some (utc_seconds d - off))
                  else if tz = ''Z'' then Some (utc_seconds d)
                  else None))
      | _ \<Rightarrow> None)"

section \<open>models/db.py\<close>

text \<open>
  The database file: four tables, each the list of its rows in storage order; a row
  gives the value of each column, in the order of \<^verbatim>\<open>CREATE TABLE\<close>. The connection never
  runs \<^verbatim>\<open>PRAGMA foreign_keys = ON\<close>, so SQLite does not enforce the \<^verbatim>\<open>FOREIGN KEY\<close>
  clauses of \<^verbatim>\<open>setup_db\<close>, their \<^verbatim>\<open>ON DELETE CASCADE\<close> included: no statement of the
  model touches a table other than its own.
\<close>

type_synonym row = "(string \<times> sqlval) list"

record db =
  users :: "row list"
  users_rates :: "row list"
  currency_predictions :: "row list"
  predictions_reactions :: "row list"

definition empty_db :: db where
  "empty_db = \<lparr>users = [], users_rates = [], currency_predictions = [],
                predictions_reactions = []\<rparr>"

definition col :: "row \<Rightarrow> string \<Rightarrow> sqlval" where
  "col r c = (case map_of r c of Some v \<Rightarrow> v | None \<Rightarrow> SNull)"

text \<open>\<^verbatim>\<open>dict_factory\<close>: every row that \<^verbatim>\<open>execute\<close> returns is a dictionary from column
  names to values.\<close>

type_synonym pyrow = "(string \<times> pyval) list"

definition dict_factory :: "row \<Rightarrow> pyrow" where
  "dict_factory r = map (\<lambda>kv. (fst kv, py_of_sql (snd kv))) r"

text \<open>\<^verbatim>\<open>list(d)\<close> and unpacking of a dictionary iterate over its keys.\<close>

definition dict_keys :: "pyrow \<Rightarrow> pyval list" where
  "dict_keys d = map (\<lambda>kv. PStr (fst kv)) d"

text \<open>\<^verbatim>\<open>d[i]\<close> with an integer \<open>i\<close> on a row dictionary: its keys are column names, so
  the key is missing.\<close>

definition dict_getitem_int :: "pyrow \<Rightarrow> int \<Rightarrow> exn + pyval" where
  "dict_getitem_int d i = Inl KeyError"

text \<open>A parameter compared with a column of INTEGER affinity.\<close>

definition matches :: "row \<Rightarrow> string \<Rightarrow> sqlval \<Rightarrow> bool" where
  "matches r c p = sql_eq (col r c) (apply_affinity AffNumeric p)"

subsection \<open>Users\<close>

text \<open>\<^verbatim>\<open>SELECT user_id FROM users WHERE user_id = ?\<close> and \<^verbatim>\<open>len(res) > 0\<close>.\<close>

definition check_user_exists :: "db \<Rightarrow> pyval \<Rightarrow> exn + bool" where
  "check_user_exists d user_id =
     (case adapt user_id of
        Inl e \<Rightarrow> Inl e
      | Inr p \<Rightarrow> Inr (filter (\<lambda>r. matches r ''user_id'' p) (users d) \<noteq> []))"

text \<open>
  \<^verbatim>\<open>add_user\<close>, with the arguments typed as annotated; \<open>is_pro\<close> is a \<^verbatim>\<open>bool\<close> or a
  \<^verbatim>\<open>datetime\<close>. The \<^verbatim>\<open>CHECK\<close> constraints of the table make the insert fail with
  \<^verbatim>\<open>IntegrityError\<close>; a row with the same \<open>user_id\<close> is replaced
  (\<^verbatim>\<open>UNIQUE(user_id) ON CONFLICT REPLACE\<close>). The column \<open>is_pro\<close> is declared
  \<^verbatim>\<open>DATETIME\<close>, which has NUMERIC affinity.
\<close>

definition add_user ::
  "db \<Rightarrow> int \<Rightarrow> bool \<Rightarrow> pyval \<Rightarrow> bool \<Rightarrow> bool \<Rightarrow> int \<Rightarrow> string \<Rightarrow> (exn + bool) \<times> db" where
  "add_user d user_id is_active is_pro is_staff to_notify_by_experts tz language =
     (case (case is_pro of
              PDatetime t \<Rightarrow> Inr (SText (strftime_ymd_hms t))
            | v \<Rightarrow> adapt v) of
        Inl e \<Rightarrow> (Inl e, d)
      | Inr pro \<Rightarrow>
          if (- 11 \<le> tz \<and> tz \<le> 12) \<and> (length language = 2 \<or> length language = 3)
          then
            (Inr True,
             d\<lparr>users :=
                 filter (\<lambda>r. \<not> sql_eq (col r ''user_id'') (SInt user_id)) (users d) @
                 [[(''user_id'', SInt user_id),
                   (''is_active'', SInt (if is_active then 1 else 0)),
                   (''is_pro'', apply_affinity AffNumeric pro),
                   (''is_staff'', SInt (if is_staff then 1 else 0)),
                   (''to_notify_by_experts'', SInt (if to_notify_by_experts then 1 else 0)),
                   (''timezone'', SInt tz),
                   (''language'', SText language)]]\<rparr>)
          else (Inl IntegrityError, d))"

text \<open>
  \<^verbatim>\<open>get_user_rates\<close>: the join of \<open>users\<close> and \<open>users_rates\<close> on the user id. Each row
  returned is a dictionary, and \<^verbatim>\<open>rate[:-1]\<close> on a dictionary raises (\<^verbatim>\<open>TypeError\<close>,
  unhashable slice, up to Python 3.11; \<^verbatim>\<open>KeyError\<close> from 3.12): \<open>SubscriptError\<close> here. So
  the result is the empty list when the user has no rates.
\<close>

definition select_user_rates :: "db \<Rightarrow> sqlval \<Rightarrow> pyrow list" where
  "select_user_rates d p =
     concat (map (\<lambda>u.
        map (\<lambda>r. dict_factory [(''iso'', col r ''iso''), (''start_value'', col r ''start_value''),
                                (''percent_delta'', col r ''percent_delta''),
                                (''check_times'', col r ''check_times'')])
          (filter (\<lambda>r. sql_eq (col u ''user_id'') (col r ''user_id'') \<and> matches u ''user_id'' p)
             (users_rates d)))
        (users d))"

definition get_user_rates :: "db \<Rightarrow> pyval \<Rightarrow> exn + pyval list" where
  "get_user_rates d user_id =
     (case adapt user_id of
        Inl e \<Rightarrow> Inl e
      | Inr p \<Rightarrow> if select_user_rates d p = [] then Inr [] else Inl SubscriptError)"

definition select_user :: "db \<Rightarrow> sqlval \<Rightarrow> pyrow list" where
  "select_user d p = map dict_factory (filter (\<lambda>r. matches r ''user_id'' p) (users d))"

text \<open>\<^verbatim>\<open>strptime\<close> of \<open>is_pro\<close> when it is a text.\<close>

definition parse_is_pro :: "pyval \<Rightarrow> exn + pyval" where
  "parse_is_pro v =
     (case v of
        PStr s \<Rightarrow> (case strptime_ymd_hms s of Inl e \<Rightarrow> Inl e | Inr t \<Rightarrow> Inr (PDatetime t))
      | _ \<Rightarrow> Inr v)"

text \<open>
  \<^verbatim>\<open>get_user\<close>. The first row of the \<^verbatim>\<open>SELECT *\<close> is a dictionary; \<^verbatim>\<open>list(...)\<close> of it
  is the list of its keys, which is unpacked into the seven names. Unpacking a list
  of another length raises \<^verbatim>\<open>ValueError\<close>.
\<close>

definition get_user :: "db \<Rightarrow> pyval \<Rightarrow> exn + pyval" where
  "get_user d user_id =
     (case check_user_exists d user_id of
        Inl e \<Rightarrow> Inl e
      | Inr False \<Rightarrow> Inr PNone
      | Inr True \<Rightarrow>
          (case adapt user_id of
             Inl e \<Rightarrow> Inl e
           | Inr p \<Rightarrow>
               (case select_user d p of
                  [] \<Rightarrow> Inl IndexError
                | r # rs \<Rightarrow>
                    (case dict_keys r of
                       [user_id1, is_active, is_pro, is_staff, to_notify_by_experts, tz,
                        language] \<Rightarrow>
                         (case get_user_rates d user_id1 of
                            Inl e \<Rightarrow> Inl e
                          | Inr rates \<Rightarrow>
                              (case parse_is_pro is_pro of
                                 Inl e \<Rightarrow> Inl e
                               | Inr is_pro1 \<Rightarrow>
                                   Inr (PList [user_id1, is_active, is_pro1, is_staff,
                                          to_notify_by_experts, PList rates, tz, language])))
                     | _ \<Rightarrow> Inl ValueError))))"

subsection \<open>Predictions\<close>


text \<open>\<^verbatim>\<open>SELECT id FROM currency_predictions WHERE id = ?\<close> and \<^verbatim>\<open>len(res) > 0\<close>.\<close>

definition check_prediction_exists :: "db \<Rightarrow> pyval \<Rightarrow> exn + bool" where
  "check_prediction_exists d pred_id =
     (case adapt pred_id of
        Inl e \<Rightarrow> Inl e
      | Inr p \<Rightarrow> Inr (filter (\<lambda>r. matches r ''id'' p) (currency_predictions d) \<noteq> []))"

text \<open>\<^verbatim>\<open>delete_prediction\<close>: one \<^verbatim>\<open>DELETE\<close> on \<open>currency_predictions\<close>.\<close>

definition delete_prediction :: "db \<Rightarrow> pyval \<Rightarrow> (exn + bool) \<times> db" where
  "delete_prediction d pred_id =
     (case adapt pred_id of
        Inl e \<Rightarrow> (Inl e, d)
      | Inr p \<Rightarrow>
          (Inr True,
           d\<lparr>currency_predictions :=
               filter (\<lambda>r. \<not> matches r ''id'' p) (currency_predictions d)\<rparr>))"

text \<open>
  \<^verbatim>\<open>toggle_prediction_reaction\<close>: \<open>if_like\<close> is \<^verbatim>\<open>True\<close>, \<^verbatim>\<open>False\<close> or \<^verbatim>\<open>None\<close>. The stored
  reaction is 1 for a like and 0 for a dislike.
\<close>

definition toggle_prediction_reaction ::
  "db \<Rightarrow> pyval \<Rightarrow> pyval \<Rightarrow> pyval \<Rightarrow> (exn + pyval) \<times> db" where
  "toggle_prediction_reaction d pred_id user_id if_like =
     (case check_prediction_exists d pred_id of
        Inl e \<Rightarrow> (Inl e, d)
      | Inr False \<Rightarrow> (Inr PNone, d)
      | Inr True \<Rightarrow>
          (case check_user_exists d user_id of
             Inl e \<Rightarrow> (Inl e, d)
           | Inr False \<Rightarrow> (Inr PNone, d)
           | Inr True \<Rightarrow>
               (case (adapt pred_id, adapt user_id) of
                  (Inr p, Inr u) \<Rightarrow>
                    (let d1 = d\<lparr>predictions_reactions :=
                                filter (\<lambda>r. \<not> (matches r ''pred_id'' p \<and> matches r ''user_id'' u))
                                  (predictions_reactions d)\<rparr>
                     in if if_like = PNone then (Inr (PBool True), d1)
                        else
                          (case adapt if_like of
                             Inl e \<Rightarrow> (Inl e, d1)
                           | Inr l \<Rightarrow>
                               (Inr (PBool True),
                                d1\<lparr>predictions_reactions :=
                                    predictions_reactions d1 @
                                    [[(''pred_id'', apply_affinity AffInteger p),
                                      (''user_id'', apply_affinity AffInteger u),
                                      (''reaction'', apply_affinity AffNumeric l)]]\<rparr>)))
                | _ \<Rightarrow> (Inl InterfaceError, d))))"

text \<open>
  \<^verbatim>\<open>get_prediction\<close>: the row is a dictionary, and the starred unpacking iterates over
  its keys, so \<open>up_to_date\<close> is the last but two of the column names; \<^verbatim>\<open>strptime\<close> then
  reads that text. When the prediction does not exist the method returns \<^verbatim>\<open>None\<close>.
\<close>

definition select_prediction :: "db \<Rightarrow> sqlval \<Rightarrow> pyrow list" where
  "select_prediction d p =
     map dict_factory (filter (\<lambda>r. matches r ''id'' p) (currency_predictions d))"

definition get_prediction :: "db \<Rightarrow> pyval \<Rightarrow> exn + pyval" where
  "get_prediction d pred_id =
     (case check_prediction_exists d pred_id of
        Inl e \<Rightarrow> Inl e
      | Inr False \<Rightarrow> Inr PNone
      | Inr True \<Rightarrow>
          (case adapt pred_id of
             Inl e \<Rightarrow> Inl e
           | Inr p \<Rightarrow>
               (case select_prediction d p of
                  [] \<Rightarrow> Inl IndexError
                | r # rs \<Rightarrow>
                    (let ks = dict_keys r in
                     if length ks < 3 then Inl ValueError
                     else
                       (case ks ! (length ks - 3) of
                          PStr s \<Rightarrow>
                            (case strptime_ymd_hms_z s of
                               Inl e \<Rightarrow> Inl e
                             | Inr t \<Rightarrow>
                                 Inr (PList (take (length ks - 3) ks @
                                        [PDatetime t, ks ! (length ks - 2),
                                         ks ! (length ks - 1)])))
                        | _ \<Rightarrow> Inl TypeError)))))"

text \<open>
  The query of \<^verbatim>\<open>get_max_liked_predictions\<close>, at the UTC time \<open>utcnow\<close>: the predictions
  whose \<^verbatim>\<open>datetime(up_to_date)\<close> is later than \<^verbatim>\<open>datetime()\<close>, each with
  \<^verbatim>\<open>CAST(TOTAL(r.reaction) AS INT)\<close> over its reactions (0 when it has none, by the outer
  join), in descending order of that number. SQLite leaves the order of equal rows
  open; the model keeps them in storage order.
\<close>

definition likes_diff :: "db \<Rightarrow> row \<Rightarrow> int" where
  "likes_diff d p =
     cast_int (sum_list (map (\<lambda>r. sql_number (col r ''reaction''))
        (filter (\<lambda>r. sql_eq (col p ''id'') (col r ''pred_id'')) (predictions_reactions d))))"

definition is_future :: "datetime \<Rightarrow> row \<Rightarrow> bool" where
  "is_future utcnow p =
     (case sql_datetime (col p ''up_to_date'') of
        None \<Rightarrow> False
      | Some t \<Rightarrow> utc_seconds utcnow < t)"

definition select_max_liked :: "datetime \<Rightarrow> db \<Rightarrow> pyrow list" where
  "select_max_liked utcnow d =
     map (\<lambda>p. dict_factory [(''id'', col p ''id''), (''likes_diff'', SInt (likes_diff d p))])
       (sort_key (\<lambda>p. - likes_diff d p) (filter (is_future utcnow) (currency_predictions d)))"

text \<open>The list comprehension \<^verbatim>\<open>[self.get_prediction(pred_data[0]) for pred_data in ...]\<close>:
  the first exception ends it.\<close>

fun max_liked_loop :: "db \<Rightarrow> pyrow list \<Rightarrow> exn + pyval list" where
  "max_liked_loop d [] = Inr []"
| "max_liked_loop d (pred_data # rest) =
     (case dict_getitem_int pred_data 0 of
        Inl e \<Rightarrow> Inl e
      | Inr pid \<Rightarrow>
          (case get_prediction d pid of
             Inl e \<Rightarrow> Inl e
           | Inr x \<Rightarrow>
               (case max_liked_loop d rest of
                  Inl e \<Rightarrow> Inl e
                | Inr xs \<Rightarrow> Inr (x # xs))))"

definition get_max_liked_predictions :: "datetime \<Rightarrow> db \<Rightarrow> exn + pyval list" where
  "get_max_liked_predictions utcnow d = max_liked_loop d (select_max_liked utcnow d)"

subsection \<open>change_prediction\<close>



definition is_integer_value :: "sqlval \<Rightarrow> bool" where
  "is_integer_value v = (case v of SInt i \<Rightarrow> True | _ \<Rightarrow> False)"






text \<open>Databases used in the examples: one user, one prediction for 1 February 2021,
  and the same with a like by that user.\<close>

definition db_one_prediction :: db where
  "db_one_prediction =
     \<lparr>users = [[(''user_id'', SInt 7), (''is_active'', SInt 1), (''is_pro'', SInt 0),
                 (''is_staff'', SInt 0), (''to_notify_by_experts'', SInt 1),
                 (''timezone'', SInt 0), (''language'', SText ''en'')]],
      users_rates = [],
      currency_predictions =
        [[(''id'', SInt 1), (''user_id'', SInt 7), (''iso_from'', SText ''BTC''),
          (''iso_to'', SText ''USD''), (''value'', SReal 20000),
          (''up_to_date'', SText ''2021-02-01 12:00:00+00:00''),
          (''is_by_experts'', SInt 0), (''real_value'', SNull)]],
      predictions_reactions = []\<rparr>"

definition db_liked_prediction :: db where
  "db_liked_prediction =
     db_one_prediction\<lparr>predictions_reactions :=
       [[(''pred_id'', SInt 1), (''user_id'', SInt 7), (''reaction'', SInt 1)]]\<rparr>"


definition db_mixed_reactions :: db where
  "db_mixed_reactions =
     db_one_prediction\<lparr>predictions_reactions :=
       [[(''pred_id'', SInt 1), (''user_id'', SInt 7), (''reaction'', SInt 1)],
        [(''pred_id'', SInt 1), (''user_id'', SInt 8), (''reaction'', SInt 0)],
        [(''pred_id'', SInt 1), (''user_id'', SInt 9), (''reaction'', SInt 0)]]\<rparr>"

text \<open>The columns of \<open>users\<close>, and the rows \<^verbatim>\<open>add_user\<close> writes: all seven columns, with
  an integer \<open>user_id\<close>.\<close>

definition users_columns :: "string list" where
  "users_columns =
     [''user_id'', ''is_active'', ''is_pro'', ''is_staff'', ''to_notify_by_experts'',
      ''timezone'', ''language'']"

definition users_rows_ok :: "db \<Rightarrow> bool" where
  "users_rows_ok d =
     list_all (\<lambda>r. map fst r = users_columns \<and> is_integer_value (col r ''user_id'')) (users d)"



section \<open>models/parsers.py\<close>

text \<open>
  Rates are Python floats; the model computes with rationals, so every quotient and
  product below is the exact one. Results are dictionaries from text keys to numbers
  or texts, kept in insertion order.
\<close>

datatype dval = Num rat | Str string

type_synonym pydict = "(string \<times> dval) list"

text \<open>
  Modelled from the spec: \<^verbatim>\<open>utils.prettify_float\<close> is not in the sources; the spec says
  it "rounds/normalizes a floating-point value to a fixed, human-presentable
  precision". Here it rounds to \<open>p\<close> decimal places as Python's \<^verbatim>\<open>round\<close> does, a tie
  going to the even neighbour. The functions of parsers.py take the prettifier as the
  parameter \<open>pf\<close>.
\<close>

definition py_round :: "rat \<Rightarrow> int" where
  "py_round x =
     (let f = \<lfloor>x\<rfloor>; r = x - of_int f in
      if r < 1 / 2 then f else if 1 / 2 < r then f + 1 else if even f then f else f + 1)"

definition prettify_float :: "nat \<Rightarrow> rat \<Rightarrow> rat" where
  "prettify_float p x = of_int (py_round (x * 10 ^ p)) / 10 ^ p"

subsection \<open>CurrencyParser\<close>

text \<open>\<^verbatim>\<open>CurrencyParser.calculate_difference(old, new)\<close>. The division raises when the larger
  value is zero.\<close>

definition calculate_difference :: "(rat \<Rightarrow> rat) \<Rightarrow> rat \<Rightarrow> rat \<Rightarrow> exn + pydict" where
  "calculate_difference pf old new =
     (if max old new = 0 then Inl ZeroDivisionError
      else Inr [(''old'', Num old), (''new'', Num new),
                (''percentage_difference'', Num (- pf ((old - new) / max old new))),
                (''difference'', Num (pf (- (old - new))))])"

text \<open>\<^verbatim>\<open>a or b\<close> on an optional number: \<open>None\<close> and zero are false.\<close>

definition falsy :: "rat option \<Rightarrow> bool" where
  "falsy a = (a = None \<or> a = Some 0)"

text \<open>\<^verbatim>\<open>abs(res.get('percentage_difference')) < percent_delta\<close>.\<close>

definition below_delta :: "pydict \<Rightarrow> rat \<Rightarrow> exn + bool" where
  "below_delta res percent_delta =
     (case map_of res ''percentage_difference'' of
        Some (Num pd) \<Rightarrow> Inr (\<bar>pd\<bar> < percent_delta)
      | _ \<Rightarrow> Inl TypeError)"

text \<open>
  \<^verbatim>\<open>CurrencyParser.check_delta(old, new, percent_delta)\<close> of a parser with the fields
  \<open>iso_code\<close> and \<open>self_value\<close> (the cached \<^verbatim>\<open>self.value\<close>, which may be \<open>None\<close>);
  \<open>fetched\<close> is what \<^verbatim>\<open>self.get_rate().get('USD')\<close> gives if it is called: it is
  called only when \<open>new\<close> is false. Arithmetic on \<open>None\<close> raises \<^verbatim>\<open>TypeError\<close>.
\<close>

definition check_delta ::
  "(rat \<Rightarrow> rat) \<Rightarrow> string \<Rightarrow> rat option \<Rightarrow> (exn + rat) \<Rightarrow>
   rat option \<Rightarrow> rat option \<Rightarrow> rat \<Rightarrow> exn + pydict" where
  "check_delta pf iso_code self_value fetched old new percent_delta =
     (let old1 = (if falsy old then self_value else old) in
      case (if falsy new then map_sum id Some fetched else Inr new) of
        Inl e \<Rightarrow> Inl e
      | Inr new1 \<Rightarrow>
          (case (old1, new1) of
             (Some a, Some b) \<Rightarrow>
               (case calculate_difference pf a b of
                  Inl e \<Rightarrow> Inl e
                | Inr res0 \<Rightarrow>
                    (let res1 = dict_set res0 ''currency_from'' (Str iso_code);
                         res2 = dict_set res1 ''currency_to'' (Str ''USD'')
                     in case below_delta res2 percent_delta of
                          Inl e \<Rightarrow> Inl e
                        | Inr True \<Rightarrow>
                            Inr (dict_del (dict_del (dict_del res2 ''new'')
                                   ''percentage_difference'') ''difference'')
                        | Inr False \<Rightarrow> Inr res2))
           | _ \<Rightarrow> Inl TypeError))"

subsection \<open>CurrencyExchanger\<close>

text \<open>
  What the aggregator sees of the network during one call: for an iso with a dedicated
  parser (a key of \<^verbatim>\<open>self.parsers\<close>), the result of that parser's \<^verbatim>\<open>get_rate()\<close>, the
  number scraped or the exception raised; for the default parser, the answer of
  \<^verbatim>\<open>check_currency_exists\<close> and the number its \<^verbatim>\<open>get_rate\<close> scrapes for the upper-case
  iso against USD, or the exception raised.
\<close>

record world =
  parsers :: "string \<Rightarrow> (exn + rat) option"
  default_exists :: "string \<Rightarrow> bool"
  default_scrape :: "string \<Rightarrow> exn + rat"

text \<open>\<^verbatim>\<open>CurrencyParser.get_rate()\<close> of a dedicated parser: \<^verbatim>\<open>{self.iso: 1, 'USD': number}\<close>; a
  dictionary display with the same key twice keeps the first place and the last value.\<close>

definition dedicated_get_rate :: "string \<Rightarrow> (exn + rat) \<Rightarrow> exn + pydict" where
  "dedicated_get_rate iso_code r =
     (case r of Inl e \<Rightarrow> Inl e
      | Inr n \<Rightarrow> Inr (dict_set [(iso_code, Num 1)] ''USD'' (Num n)))"

text \<open>\<^verbatim>\<open>FreecurrencyratesParser.get_rate(iso_from)\<close>, with \<^verbatim>\<open>iso_to\<close> left at \<^verbatim>\<open>"USD"\<close>.\<close>

definition default_get_rate :: "world \<Rightarrow> string \<Rightarrow> exn + pydict" where
  "default_get_rate w iso_code =
     (let iso_from = upper iso_code in
      if iso_from = ''USD'' then Inr [(iso_from, Num 1)]
      else
        (case default_scrape w iso_from of
           Inl e \<Rightarrow> Inl e
         | Inr n \<Rightarrow> Inr (dict_set [(iso_from, Num 1)] ''USD'' (Num n))))"

definition resolvable :: "world \<Rightarrow> string \<Rightarrow> bool" where
  "resolvable w x = (parsers w x \<noteq> None \<or> default_exists w x)"

definition check_rate_exists :: "world \<Rightarrow> string \<Rightarrow> string \<Rightarrow> bool" where
  "check_rate_exists w iso_from iso_to = (resolvable w iso_from \<and> resolvable w iso_to)"

text \<open>The parser chosen by \<^verbatim>\<open>self.parsers.get(iso, self.default_parser)\<close> and the call
  made on it: a dedicated parser has the attribute \<^verbatim>\<open>iso\<close>, the default parser has not.\<close>

definition parser_rate :: "world \<Rightarrow> string \<Rightarrow> exn + pydict" where
  "parser_rate w iso_code =
     (case parsers w iso_code of
        Some r \<Rightarrow> dedicated_get_rate iso_code r
      | None \<Rightarrow> default_get_rate w iso_code)"

text \<open>The body of the \<^verbatim>\<open>try\<close> block of \<^verbatim>\<open>CurrencyExchanger.get_rate\<close>.\<close>

definition get_rate_body :: "(rat \<Rightarrow> rat) \<Rightarrow> world \<Rightarrow> string \<Rightarrow> string \<Rightarrow> exn + pydict" where
  "get_rate_body pf w iso_from iso_to =
     (case parser_rate w iso_from of
        Inl e \<Rightarrow> Inl e
      | Inr rate_from \<Rightarrow>
          (case parser_rate w iso_to of
             Inl e \<Rightarrow> Inl e
           | Inr rate_to \<Rightarrow>
               (case map_of rate_to ''USD'' of
                  None \<Rightarrow> Inl KeyError
                | Some (Str s) \<Rightarrow> Inl TypeError
                | Some (Num t) \<Rightarrow>
                    if t = 0 then Inl ZeroDivisionError
                    else
                      (case map_of rate_from ''USD'' of
                         Some (Num f) \<Rightarrow>
                           Inr (dict_set [(iso_from, Num 1)] iso_to (Num (pf ((1 / t) * f))))
                       | _ \<Rightarrow> Inl TypeError))))"

text \<open>\<^verbatim>\<open>CurrencyExchanger.get_rate(iso_from, iso_to)\<close>: any exception of the \<^verbatim>\<open>try\<close> block
  is replaced by \<^verbatim>\<open>ParsingError\<close>.\<close>

definition get_rate :: "(rat \<Rightarrow> rat) \<Rightarrow> world \<Rightarrow> string \<Rightarrow> string \<Rightarrow> exn + pydict" where
  "get_rate pf w iso_from iso_to =
     (if \<not> check_rate_exists w iso_from iso_to then Inl CurrencyDoesNotExistError
      else
        (case get_rate_body pf w iso_from iso_to of
           Inl e \<Rightarrow> Inl ParsingError
         | Inr d \<Rightarrow> Inr d))"

text \<open>A network on which the page of the dedicated Bitcoin parser has no element for
  the selector, and the default parser knows every currency at the rate 2.\<close>

definition btc_page_changed :: world where
  "btc_page_changed =
     \<lparr>parsers = (\<lambda>x. if x = ''BTC'' then Some (Inl ParsingError) else None),
      default_exists = (\<lambda>x. True),
      default_scrape = (\<lambda>x. Inr 2)\<rparr>"

text \<open>A network with a Bitcoin rate of 20000 USD and a euro rate of 5/4 USD.\<close>

definition btc_eur_world :: world where
  "btc_eur_world =
     \<lparr>parsers = (\<lambda>x. if x = ''BTC'' then Some (Inr 20000) else None),
      default_exists = (\<lambda>x. x = ''EUR'' \<or> x = ''USD''),
      default_scrape = (\<lambda>x. if x = ''EUR'' then Inr (5 / 4) else Inl ParsingError)\<rparr>"

section \<open>models/logger.py\<close>

text \<open>
  The state of a \<^verbatim>\<open>Logger\<close>: the counter, the minimum level, and the file system under
  \<^verbatim>\<open>base_path\<close>. File \<^verbatim>\<open>log<n>.log\<close> is the number \<open>n\<close>; \<open>files\<close> gives the bytes of each
  (a text is the list of its UTF-8 bytes, so \<open>length\<close> is what \<^verbatim>\<open>os.path.getsize\<close>
  returns after the flush), \<open>logfile\<close> is the number of the file object held in
  \<^verbatim>\<open>self.logfile\<close>, \<open>closed\<close> the numbers of the file objects that were closed, and
  \<open>console\<close> what \<^verbatim>\<open>cprint\<close> has printed, with its colour.
\<close>

record logger =
  log_count :: nat
  log_level :: string
  logfile :: nat
  files :: "nat \<Rightarrow> string"
  closed :: "nat set"
  console :: "(string \<times> string) list"


definition LOG_LEVELS :: "string \<Rightarrow> (string \<times> nat) option" where
  "LOG_LEVELS =
     map_of [(''error'', (''red'', 40)), (''warning'', (''yellow'', 30)),
             (''info'', (''cyan'', 20)), (''debug'', (''green'', 10))]"







text \<open>\<^verbatim>\<open>set_level\<close>: only the four level names are accepted.\<close>

definition set_level :: "logger \<Rightarrow> string \<Rightarrow> (exn + unit) \<times> logger" where
  "set_level st level =
     (case LOG_LEVELS level of
        None \<Rightarrow> (Inl AssertionError, st)
      | Some info \<Rightarrow> (Inr (), st\<lparr>log_level := level\<rparr>))"




section \<open>main.py\<close>

text \<open>
  One invocation of a task body either returns or raises. A task body is given by the
  outcome of its \<open>k\<close>-th invocation, \<open>k = 0, 1, ...\<close>: the bodies themselves
  (\<^verbatim>\<open>main_bot.check_alarm_times\<close> and the others) are not part of main.py.
\<close>

datatype outcome = Returns | Raises exn

text \<open>
  \<^verbatim>\<open>infinite_loop(func)\<close>: call \<open>func\<close>; on an exception print it and call again; stop
  when a call returns. The result is the number of calls made and what was printed;
  \<open>None\<close> when every call raises, and the loop never ends.
\<close>

partial_function (option) infinite_loop ::
  "(nat \<Rightarrow> outcome) \<Rightarrow> nat \<Rightarrow> exn list \<Rightarrow> (nat \<times> exn list) option" where
  "infinite_loop func k printed =
     (case func k of
        Returns \<Rightarrow> Some (Suc k, printed)
      | Raises e \<Rightarrow> infinite_loop func (Suc k) (printed @ [e]))"

text \<open>
  \<^verbatim>\<open>threading.Thread(target=target, daemon=True).start()\<close>: the thread calls \<open>target\<close>
  once. When the call returns the thread is finished; when it raises, the exception
  ends the thread. The result is the number of calls of the target and the end of the
  thread.
\<close>

datatype thread_end = Finished | Died exn

definition thread_run :: "(nat \<Rightarrow> outcome) \<Rightarrow> nat \<times> thread_end" where
  "thread_run target = (1, case target 0 of Returns \<Rightarrow> Finished | Raises e \<Rightarrow> Died e)"

text \<open>The list \<open>targets\<close> of \<^verbatim>\<open>__main__\<close>, and the loop that starts one thread for each.\<close>

definition targets :: "string list" where
  "targets =
     [''main_bot.check_alarm_times'', ''main_bot.update_rates'',
      ''main_bot.check_premium_ended'', ''main_bot.verify_predictions'',
      ''techsupport_bot.main'', ''main_bot.bot.infinity_polling'']"

definition start_threads :: "(string \<Rightarrow> nat \<Rightarrow> outcome) \<Rightarrow> (string \<times> nat \<times> thread_end) list" where
  "start_threads body = map (\<lambda>target. (target, thread_run (body target))) targets"

text \<open>Task bodies of which \<^verbatim>\<open>update_rates\<close> raises at its first call, and every other call
  returns.\<close>

definition update_rates_fails_once :: "string \<Rightarrow> nat \<Rightarrow> outcome" where
  "update_rates_fails_once target k =
     (if target = ''main_bot.update_rates'' \<and> k = 0
      then Raises (OtherError ''ConnectionError'') else Returns)"

section \<open>Properties of rangetest\<close>

lemma check_privates_omitted:
  "map_of kwargs argname = None \<Longrightarrow> argname \<notin> set allvars \<Longrightarrow>
   check_privates cmp privates allvars args kwargs =
   check_privates cmp (filter (\<lambda>p. fst p \<noteq> argname) privates) allvars args kwargs"
proof (induction privates)
  case Nil
  show ?case by simp
next
  case (Cons p rest)
  obtain a low high where p: "p = (a, low, high)" by (cases p) auto
  show ?case
  proof (cases "a = argname")
    case True
    with Cons p show ?thesis by simp
  next
    case False
    with Cons p show ?thesis
      by (simp split: option.splits sum.splits)
  qed
qed

text \<open>
  C10. A guarded parameter that the call does not supply, neither by keyword nor among
  the positional arguments passed, is not range-checked: the wrapper behaves exactly as
  the wrapper without the guard on that name, whatever the bounds. In particular, when
  it is the only guard, the wrapped function is called at once.
\<close>

theorem rangetest_omitted_not_checked:
  assumes "map_of kwargs argname = None"
    and "argname \<notin> set (take (length args) allargs)"
  shows "rangetest lt le strict_range privates allargs func args kwargs =
           rangetest lt le strict_range (filter (\<lambda>p. fst p \<noteq> argname) privates)
             allargs func args kwargs
         \<and> rangetest lt le strict_range [(argname, low, high)] allargs func args kwargs =
           func args kwargs"
proof
  show "rangetest lt le strict_range privates allargs func args kwargs =
        rangetest lt le strict_range (filter (\<lambda>p. fst p \<noteq> argname) privates)
          allargs func args kwargs"
    unfolding rangetest_def Let_def
    using check_privates_omitted [OF assms(1) assms(2)] by simp
  show "rangetest lt le strict_range [(argname, low, high)] allargs func args kwargs =
        func args kwargs"
    unfolding rangetest_def Let_def using assms by simp
qed

text \<open>The guard of \<^verbatim>\<open>add_user_rate\<close> on \<open>start_value\<close>, at a call that passes three
  positional arguments and leaves \<open>start_value\<close> to its default.\<close>

theorem rangetest_omitted_not_checked_witness:
  "map_of ([] :: (string \<times> int) list) ''start_value'' = None \<and>
   ''start_value'' \<notin> set (take (length [0, 5, 9 :: int])
      [''self'', ''user_id'', ''iso'', ''start_value'', ''percent_delta'', ''check_times'']) \<and>
   rangetest (\<lambda>a b. Inr (a < b)) (\<lambda>a b. Inr (a \<le> b)) True [(''start_value'', 0, 100)]
      [''self'', ''user_id'', ''iso'', ''start_value'', ''percent_delta'', ''check_times'']
      (\<lambda>args kwargs. Inr (length args)) [0, 5, 9 :: int] [] = (Inr 3 :: exn + nat)"
proof -
  have a: "map_of ([] :: (string \<times> int) list) ''start_value'' = None" by simp
  have b: "''start_value'' \<notin> set (take (length [0, 5, 9 :: int])
      [''self'', ''user_id'', ''iso'', ''start_value'', ''percent_delta'', ''check_times''])"
    by simp
  show ?thesis
    using a b rangetest_omitted_not_checked [OF a b,
        where lt = "\<lambda>a b. Inr (a < b)" and le = "\<lambda>a b. Inr (a \<le> b)" and strict_range = True
          and func = "\<lambda>args kwargs. Inr (length args) :: exn + nat"
          and low = 0 and high = 100 and privates = "[(''start_value'', 0, 100)]",
        THEN conjunct2]
    by (simp add: eval_nat_numeral)
qed

section \<open>Properties of utils/dt.py\<close>

lemma get_current_datetime_out_of_range:
  "get_current_datetime utcnow 13 = Inl AssertionError \<and>
   get_current_datetime utcnow (- 12) = Inl AssertionError"
  by (simp add: get_current_datetime_def offset_in_range_def)

lemma get_current_datetime_within_month:
  assumes "valid_datetime utcnow" and "offset_in_range utcoffset"
    and "1 \<le> day utcnow + (hour utcnow + utcoffset) div 24"
    and "day utcnow + (hour utcnow + utcoffset) div 24
           \<le> days_in_month (year utcnow) (month utcnow)"
  shows "\<exists>n. get_current_datetime utcnow utcoffset = Inr n \<and>
             hour n = (hour utcnow + utcoffset) mod 24 \<and>
             tzinfo n = Some (utcoffset * 3600)"
proof -
  have tz: "timezone (utcoffset * 60 * 60) = Inr (utcoffset * 3600)"
    using assms(2) by (simp add: timezone_def offset_in_range_def)
  have h: "0 \<le> (hour utcnow + utcoffset) mod 24" "(hour utcnow + utcoffset) mod 24 \<le> 23"
    by simp_all
  show ?thesis
    using assms tz h
    by (simp add: get_current_datetime_def add_offset_def construct_def valid_datetime_def
        check_date_fields_def check_time_fields_def)
qed

text \<open>
  C4. At 23:30 UTC on 31 January 2021 the call with offset 1 does not return a timestamp
  of hour 0: the day field becomes 32, which the datetime constructor refuses.
\<close>

theorem get_current_datetime_month_end:
  "get_current_datetime jan31_2330 1 = Inl ValueError"
  by (simp add: jan31_2330_def get_current_datetime_def offset_in_range_def construct_def
      check_date_fields_def check_time_fields_def days_in_month_def)

section \<open>Properties of the storage layer\<close>

lemma matches_text_user_id:
  "is_integer_value (col r ''user_id'') \<Longrightarrow> \<not> matches r ''user_id'' (SText ''user_id'')"
proof -
  assume a: "is_integer_value (col r ''user_id'')"
  have l: "int_literal ''user_id'' = None" by code_simp
  from a obtain i where "col r ''user_id'' = SInt i"
    by (auto simp: is_integer_value_def split: sqlval.splits)
  then show ?thesis by (simp add: matches_def l)
qed

lemma get_user_rates_of_key:
  assumes "users_rows_ok d"
  shows "get_user_rates d (PStr ''user_id'') = Inr []"
proof -
  have "\<forall>u \<in> set (users d). \<not> matches u ''user_id'' (SText ''user_id'')"
    using assms by (auto simp: users_rows_ok_def list_all_iff dest: matches_text_user_id)
  then have "select_user_rates d (SText ''user_id'') = []"
    by (auto simp: select_user_rates_def)
  then show ?thesis by (simp add: get_user_rates_def)
qed

lemma parse_is_pro_of_key: "parse_is_pro (PStr ''is_pro'') = Inl ValueError"
  by code_simp

lemma dict_keys_factory: "dict_keys (dict_factory r) = map PStr (map fst r)"
  by (simp add: dict_keys_def dict_factory_def comp_def)

lemma get_user_existing_raises:
  assumes "check_user_exists d user_id = Inr True" and "users_rows_ok d"
  shows "get_user d user_id = Inl ValueError"
proof -
  from assms(1) obtain p where p: "adapt user_id = Inr p"
    and ne: "filter (\<lambda>r. matches r ''user_id'' p) (users d) \<noteq> []"
    by (auto simp: check_user_exists_def split: sum.splits)
  then obtain r0 rs0 where f: "filter (\<lambda>r. matches r ''user_id'' p) (users d) = r0 # rs0"
    by (cases "filter (\<lambda>r. matches r ''user_id'' p) (users d)") auto
  then have "r0 \<in> set (users d)"
    by (metis filter_is_subset list.set_intros(1) subsetD)
  then have k: "map fst r0 = users_columns"
    using assms(2) by (auto simp: users_rows_ok_def list_all_iff)
  have s: "select_user d p = dict_factory r0 # map dict_factory rs0"
    by (simp add: select_user_def f)
  have dk: "dict_keys (dict_factory r0) =
      [PStr ''user_id'', PStr ''is_active'', PStr ''is_pro'', PStr ''is_staff'',
       PStr ''to_notify_by_experts'', PStr ''timezone'', PStr ''language'']"
    by (simp add: dict_keys_factory k users_columns_def)
  show ?thesis
    by (simp add: get_user_def assms(1) p s dk get_user_rates_of_key [OF assms(2)]
        parse_is_pro_of_key)
qed


lemma add_user_result:
  assumes "add_user d user_id is_active is_pro is_staff to_notify tz language = (Inr True, d1)"
  shows "\<exists>pro. users d1 =
      filter (\<lambda>r. \<not> sql_eq (col r ''user_id'') (SInt user_id)) (users d) @
        [[(''user_id'', SInt user_id), (''is_active'', SInt (if is_active then 1 else 0)),
          (''is_pro'', pro), (''is_staff'', SInt (if is_staff then 1 else 0)),
          (''to_notify_by_experts'', SInt (if to_notify then 1 else 0)),
          (''timezone'', SInt tz), (''language'', SText language)]]"
proof (cases "case is_pro of PDatetime t \<Rightarrow> Inr (SText (strftime_ymd_hms t)) | v \<Rightarrow> adapt v")
  case (Inl e)
  with assms show ?thesis by (simp add: add_user_def)
next
  case (Inr pro)
  with assms show ?thesis
    by (cases "(- 11 \<le> tz \<and> tz \<le> 12) \<and> (length language = 2 \<or> length language = 3)")
       (auto simp: add_user_def)
qed

lemma add_user_rows_ok:
  assumes "users_rows_ok d"
    and "add_user d user_id is_active is_pro is_staff to_notify tz language = (Inr True, d1)"
  shows "users_rows_ok d1 \<and> check_user_exists d1 (PInt user_id) = Inr True"
proof -
  from add_user_result [OF assms(2)] obtain pro where
    u: "users d1 =
      filter (\<lambda>r. \<not> sql_eq (col r ''user_id'') (SInt user_id)) (users d) @
        [[(''user_id'', SInt user_id), (''is_active'', SInt (if is_active then 1 else 0)),
          (''is_pro'', pro), (''is_staff'', SInt (if is_staff then 1 else 0)),
          (''to_notify_by_experts'', SInt (if to_notify then 1 else 0)),
          (''timezone'', SInt tz), (''language'', SText language)]]"
    by blast
  have a: "users_rows_ok d1"
    using assms(1) unfolding users_rows_ok_def u
    by (simp add: list_all_iff users_columns_def col_def is_integer_value_def)
  have b: "check_user_exists d1 (PInt user_id) = Inr True"
    unfolding check_user_exists_def u
    by (simp add: matches_def col_def)
  from a b show ?thesis by simp
qed

text \<open>
  C1. \<^verbatim>\<open>add_user\<close> followed by \<^verbatim>\<open>get_user\<close> does not return the profile: for the premium
  value \<^verbatim>\<open>False\<close> and for a timestamp alike, \<^verbatim>\<open>get_user\<close> unpacks the column names of the
  row dictionary and \<^verbatim>\<open>strptime\<close> raises \<^verbatim>\<open>ValueError\<close> on the text \<^verbatim>\<open>is_pro\<close>.
\<close>

theorem get_user_after_add_user:
  "get_user (snd (add_user empty_db 42 True (PBool False) False True 3 ''en'')) (PInt 42) =
     Inl ValueError \<and>
   get_user (snd (add_user empty_db 42 True (PDatetime jan31_2330) False True 3 ''en''))
     (PInt 42) = Inl ValueError"
  by code_simp

lemma delete_prediction_keeps_reactions:
  "predictions_reactions (snd (delete_prediction d pred_id)) = predictions_reactions d"
  by (simp add: delete_prediction_def split: sum.splits)

text \<open>
  C3. Deleting prediction 1, which has a like by user 7, removes the prediction and
  leaves the reaction row keyed by 1 in \<open>predictions_reactions\<close>.
\<close>

theorem delete_prediction_leaves_reaction:
  "delete_prediction db_liked_prediction (PInt 1) =
     (Inr True, db_liked_prediction\<lparr>currency_predictions := []\<rparr>) \<and>
   predictions_reactions (snd (delete_prediction db_liked_prediction (PInt 1))) =
     [[(''pred_id'', SInt 1), (''user_id'', SInt 7), (''reaction'', SInt 1)]]"
  by code_simp

lemma get_max_liked_predictions_cases:
  "get_max_liked_predictions utcnow d =
     (if select_max_liked utcnow d = [] then Inr [] else Inl KeyError)"
  by (cases "select_max_liked utcnow d")
     (simp_all add: get_max_liked_predictions_def dict_getitem_int_def)

lemma likes_diff_counts_likes:
  "select_max_liked jan31_2330 db_mixed_reactions =
     [[(''id'', PInt 1), (''likes_diff'', PInt 1)]]"
  by code_simp

text \<open>
  C2. With one prediction whose target datetime is in the future, the query returns
  its row, with the score 0 as it has no reaction, and \<^verbatim>\<open>get_max_liked_predictions\<close>
  raises \<^verbatim>\<open>KeyError\<close> on \<^verbatim>\<open>pred_data[0]\<close> instead of returning the prediction.
\<close>

theorem get_max_liked_predictions_raises:
  "select_max_liked jan31_2330 db_one_prediction =
     [[(''id'', PInt 1), (''likes_diff'', PInt 0)]] \<and>
   get_max_liked_predictions jan31_2330 db_one_prediction = Inl KeyError"
  by code_simp












section \<open>Properties of the parsers\<close>

lemma py_round_bounds:
  "x - 1 / 2 \<le> of_int (py_round x) \<and> of_int (py_round x) \<le> x + 1 / 2"
  by (auto simp: py_round_def Let_def; linarith)

lemma py_round_of_int: "py_round (of_int n) = n"
  by (simp add: py_round_def Let_def)

lemma py_round_le_int: "x \<le> of_int n \<Longrightarrow> py_round x \<le> n"
proof -
  assume a: "x \<le> of_int n"
  have f: "of_int \<lfloor>x\<rfloor> \<le> x" by linarith
  show ?thesis
  proof (cases "x = of_int n")
    case True
    then show ?thesis by (simp add: py_round_of_int)
  next
    case False
    with a have "x < of_int n" by simp
    then have "\<lfloor>x\<rfloor> < n" using f by linarith
    then show ?thesis by (auto simp: py_round_def Let_def)
  qed
qed

lemma py_round_ge_int: "of_int n \<le> x \<Longrightarrow> n \<le> py_round x"
proof -
  assume a: "of_int n \<le> x"
  then have "n \<le> \<lfloor>x\<rfloor>" by linarith
  then show ?thesis by (auto simp: py_round_def Let_def)
qed

lemma prettify_float_int:
  "prettify_float p (of_int n) = of_int n"
proof -
  have "of_int n * (10::rat) ^ p = of_int (n * 10 ^ p)" by simp
  then have "py_round (of_int n * 10 ^ p) = n * 10 ^ p"
    by (simp only: py_round_of_int)
  then show ?thesis by (simp add: prettify_float_def)
qed

lemma prettify_float_scaled:
  assumes p: "p = q + 4"
  shows "prettify_float p x = of_int (py_round (x * (10000 * 10 ^ q))) / (10000 * 10 ^ q)"
  by (simp add: prettify_float_def p power_add mult.commute)

lemma pd_100_101:
  assumes "4 \<le> p"
  shows "99 / 10000 \<le> - prettify_float p ((100 - 101) / max 100 101) \<and>
         - prettify_float p ((100 - 101) / max 100 101) < 1 / 100"
proof -
  obtain q where p: "p = q + 4" using assms by (metis le_Suc_ex add.commute)
  define t :: rat where "t = 10 ^ q"
  have t1: "1 \<le> t" unfolding t_def by simp
  define y :: rat where "y = (- 1 / 101) * (10000 * t)"
  define r where "r = py_round y"
  have x: "((100 - 101) / max 100 101 :: rat) = - 1 / 101" by simp
  have pf: "prettify_float p ((100 - 101) / max 100 101) = of_int r / (10000 * t)"
    unfolding x by (simp add: prettify_float_scaled [OF p] r_def y_def t_def)
  have lo: "y - 1 / 2 \<le> of_int r" using py_round_bounds [of y] by (simp add: r_def)
  have "y \<le> of_int (- 99 * 10 ^ q)" using t1 by (simp add: y_def t_def)
  then have "r \<le> - 99 * 10 ^ q" unfolding r_def by (rule py_round_le_int)
  then have "(of_int r :: rat) \<le> of_int (- 99 * 10 ^ q)" by (simp only: of_int_le_iff)
  then have hi: "of_int r \<le> - 99 * t" by (simp add: t_def)
  have t0: "0 < 10000 * t" using t1 by simp
  have a: "99 / 10000 \<le> - (of_int r / (10000 * t))"
    using hi t1 by (simp add: field_simps)
  have b: "- (of_int r / (10000 * t)) < 1 / 100"
    using lo t1 by (simp add: field_simps y_def)
  show ?thesis unfolding pf using a b by simp
qed

lemma pd_100_99:
  assumes "4 \<le> p"
  shows "prettify_float p ((100 - 99) / max 100 99) = 1 / 100"
proof -
  obtain q where p: "p = q + 4" using assms by (metis le_Suc_ex add.commute)
  have x: "((100 - 99) / max 100 99 :: rat) = 1 / 100" by simp
  have "(1 / 100 :: rat) * (10000 * 10 ^ q) = of_int (100 * 10 ^ q)" by simp
  then have "py_round ((1 / 100) * (10000 * 10 ^ q)) = 100 * 10 ^ q"
    by (simp only: py_round_of_int)
  then show ?thesis
    unfolding x by (simp add: prettify_float_scaled [OF p])
qed

lemma pd_100_100_5:
  assumes "4 \<le> p"
  shows "\<bar>- prettify_float p ((100 - 201 / 2) / max 100 (201 / 2))\<bar> < 1 / 100"
proof -
  obtain q where p: "p = q + 4" using assms by (metis le_Suc_ex add.commute)
  define t :: rat where "t = 10 ^ q"
  have t1: "1 \<le> t" unfolding t_def by simp
  define y :: rat where "y = (- 1 / 201) * (10000 * t)"
  define r where "r = py_round y"
  have x: "((100 - 201 / 2) / max 100 (201 / 2) :: rat) = - 1 / 201" by simp
  have pf: "prettify_float p ((100 - 201 / 2) / max 100 (201 / 2)) = of_int r / (10000 * t)"
    unfolding x by (simp add: prettify_float_scaled [OF p] r_def y_def t_def)
  have lo: "y - 1 / 2 \<le> of_int r" and hi: "of_int r \<le> y + 1 / 2"
    using py_round_bounds [of y] by (simp_all add: r_def)
  have a: "- (1 / 100) < of_int r / (10000 * t)"
    using lo t1 by (simp add: field_simps y_def)
  have b: "of_int r / (10000 * t) < 1 / 100"
    using hi t1 by (simp add: field_simps y_def)
  show ?thesis unfolding pf using a b by (simp add: abs_less_iff)
qed

lemma check_delta_given:
  assumes "old \<noteq> 0" and "new \<noteq> 0" and "max old new \<noteq> 0"
  shows "check_delta pf cur v f (Some old) (Some new) delta =
     Inr (if \<bar>- pf ((old - new) / max old new)\<bar> < delta
          then [(''old'', Num old), (''currency_from'', Str cur), (''currency_to'', Str ''USD'')]
          else [(''old'', Num old), (''new'', Num new),
                (''percentage_difference'', Num (- pf ((old - new) / max old new))),
                (''difference'', Num (pf (- (old - new)))),
                (''currency_from'', Str cur), (''currency_to'', Str ''USD'')])"
  using assms
  by (simp add: check_delta_def falsy_def calculate_difference_def below_delta_def dict_del_def)

text \<open>
  C7. With the prettifier rounding to at least four decimal places:
  \<^verbatim>\<open>calculate_difference(100, 101)\<close> has a percentage difference in [0.0099, 0.01) and the
  difference 1; \<^verbatim>\<open>calculate_difference(100, 99)\<close> has a negative percentage difference
  and the difference -1; \<^verbatim>\<open>check_delta\<close>, given both values, leaves out the fields
  \<open>new\<close>, \<open>percentage_difference\<close> and \<open>difference\<close> exactly when the absolute value of
  the percentage difference is below \<open>percent_delta\<close>, whatever the prettifier; and
  with old = 100, new = 100.5 and \<open>percent_delta\<close> = 0.01 it leaves them out.
\<close>

theorem calculate_difference_check_delta:
  assumes "4 \<le> p"
  shows "(\<exists>pd. calculate_difference (prettify_float p) 100 101 =
              Inr [(''old'', Num 100), (''new'', Num 101),
                   (''percentage_difference'', Num pd), (''difference'', Num 1)] \<and>
            99 / 10000 \<le> pd \<and> pd < 1 / 100) \<and>
         (\<exists>pd. calculate_difference (prettify_float p) 100 99 =
              Inr [(''old'', Num 100), (''new'', Num 99),
                   (''percentage_difference'', Num pd), (''difference'', Num (- 1))] \<and>
            pd < 0) \<and>
         (\<forall>pf cur v f old new delta.
            old \<noteq> 0 \<and> new \<noteq> 0 \<and> max old new \<noteq> 0 \<longrightarrow>
            check_delta pf cur v f (Some old) (Some new) delta =
              Inr (if \<bar>- pf ((old - new) / max old new)\<bar> < delta
                   then [(''old'', Num old), (''currency_from'', Str cur),
                         (''currency_to'', Str ''USD'')]
                   else [(''old'', Num old), (''new'', Num new),
                         (''percentage_difference'', Num (- pf ((old - new) / max old new))),
                         (''difference'', Num (pf (- (old - new)))),
                         (''currency_from'', Str cur), (''currency_to'', Str ''USD'')])) \<and>
         check_delta (prettify_float p) cur v f (Some 100) (Some (201 / 2)) (1 / 100) =
           Inr [(''old'', Num 100), (''currency_from'', Str cur), (''currency_to'', Str ''USD'')]"
proof (intro conjI)
  have one: "prettify_float p (- (100 - 101)) = 1"
    using prettify_float_int [of p 1] by simp
  show "\<exists>pd. calculate_difference (prettify_float p) 100 101 =
              Inr [(''old'', Num 100), (''new'', Num 101),
                   (''percentage_difference'', Num pd), (''difference'', Num 1)] \<and>
            99 / 10000 \<le> pd \<and> pd < 1 / 100"
    using pd_100_101 [OF assms] one
    by (intro exI [of _ "- prettify_float p ((100 - 101) / max 100 101)"])
       (simp add: calculate_difference_def)
  have mone: "prettify_float p (- (100 - 99)) = - 1"
    using prettify_float_int [of p "- 1"] by simp
  show "\<exists>pd. calculate_difference (prettify_float p) 100 99 =
              Inr [(''old'', Num 100), (''new'', Num 99),
                   (''percentage_difference'', Num pd), (''difference'', Num (- 1))] \<and>
            pd < 0"
    using pd_100_99 [OF assms] mone
    by (intro exI [of _ "- prettify_float p ((100 - 99) / max 100 99)"])
       (simp add: calculate_difference_def)
  show "\<forall>pf cur v f old new delta.
            old \<noteq> 0 \<and> new \<noteq> 0 \<and> max old new \<noteq> 0 \<longrightarrow>
            check_delta pf cur v f (Some old) (Some new) delta =
              Inr (if \<bar>- pf ((old - new) / max old new)\<bar> < delta
                   then [(''old'', Num old), (''currency_from'', Str cur),
                         (''currency_to'', Str ''USD'')]
                   else [(''old'', Num old), (''new'', Num new),
                         (''percentage_difference'', Num (- pf ((old - new) / max old new))),
                         (''difference'', Num (pf (- (old - new)))),
                         (''currency_from'', Str cur), (''currency_to'', Str ''USD'')])"
    using check_delta_given by blast
  have "check_delta (prettify_float p) cur v f (Some 100) (Some (201 / 2)) (1 / 100) =
     Inr (if \<bar>- prettify_float p ((100 - 201 / 2) / max 100 (201 / 2))\<bar> < 1 / 100
          then [(''old'', Num 100), (''currency_from'', Str cur), (''currency_to'', Str ''USD'')]
          else [(''old'', Num 100), (''new'', Num (201 / 2)),
                (''percentage_difference'',
                   Num (- prettify_float p ((100 - 201 / 2) / max 100 (201 / 2)))),
                (''difference'', Num (prettify_float p (- (100 - 201 / 2)))),
                (''currency_from'', Str cur), (''currency_to'', Str ''USD'')])"
    by (rule check_delta_given) simp_all
  then show "check_delta (prettify_float p) cur v f (Some 100) (Some (201 / 2)) (1 / 100) =
           Inr [(''old'', Num 100), (''currency_from'', Str cur), (''currency_to'', Str ''USD'')]"
    using pd_100_100_5 [OF assms] by (simp only: if_True)
qed

text \<open>Rounding to four decimal places, on a Bitcoin parser without a cached value.\<close>

theorem calculate_difference_check_delta_witness:
  "(4 :: nat) \<le> 4 \<and>
   (\<exists>pd. calculate_difference (prettify_float 4) 100 101 =
        Inr [(''old'', Num 100), (''new'', Num 101),
             (''percentage_difference'', Num pd), (''difference'', Num 1)] \<and>
      99 / 10000 \<le> pd \<and> pd < 1 / 100) \<and>
   check_delta (prettify_float 4) ''BTC'' None (Inl ParsingError)
       (Some 100) (Some (201 / 2)) (1 / 100) =
     Inr [(''old'', Num 100), (''currency_from'', Str ''BTC''), (''currency_to'', Str ''USD'')]"
proof -
  have a: "(4 :: nat) \<le> 4" by simp
  show ?thesis
    using a calculate_difference_check_delta [OF a, of "''BTC''" None "Inl ParsingError"]
    by blast
qed

lemma map_of_dict_set: "map_of (dict_set d k v) k = Some v"
  by (induction d) auto

lemma get_rate_unresolvable:
  "\<not> check_rate_exists w iso_from iso_to \<Longrightarrow>
   get_rate pf w iso_from iso_to = Inl CurrencyDoesNotExistError"
  by (simp add: get_rate_def)

lemma get_rate_resolvable_cases:
  "check_rate_exists w iso_from iso_to \<Longrightarrow>
   (\<exists>d. get_rate pf w iso_from iso_to = Inr d) \<or>
   get_rate pf w iso_from iso_to = Inl ParsingError"
  by (simp add: get_rate_def split: sum.splits)

lemma get_rate_value:
  assumes "check_rate_exists w iso_from iso_to"
    and "parser_rate w iso_from = Inr rate_from"
    and "parser_rate w iso_to = Inr rate_to"
    and "map_of rate_to ''USD'' = Some (Num t)" and "t \<noteq> 0"
    and "map_of rate_from ''USD'' = Some (Num f)"
  shows "get_rate pf w iso_from iso_to =
           Inr (dict_set [(iso_from, Num 1)] iso_to (Num (pf ((1 / t) * f))))"
  using assms by (simp add: get_rate_def get_rate_body_def)

text \<open>
  C5 (as amended). When either iso is unresolvable (no dedicated parser, and the default
  parser does not confirm it), \<^verbatim>\<open>get_rate\<close> raises \<^verbatim>\<open>CurrencyDoesNotExistError\<close>, not
  \<^verbatim>\<open>ParsingError\<close>. When both are resolvable, it returns or raises \<^verbatim>\<open>ParsingError\<close>; and
  when both parsers give a USD rate and the rate of \<open>iso_to\<close> is not zero, it returns a
  dictionary whose \<open>iso_to\<close> entry is the prettified \<open>(1 / rate_to) * rate_from\<close>.
\<close>

theorem get_rate_outcomes:
  "(if check_rate_exists w iso_from iso_to
    then ((\<exists>d. get_rate pf w iso_from iso_to = Inr d) \<or>
          get_rate pf w iso_from iso_to = Inl ParsingError) \<and>
         (\<forall>rate_from rate_to t f.
            parser_rate w iso_from = Inr rate_from \<and> parser_rate w iso_to = Inr rate_to \<and>
            map_of rate_to ''USD'' = Some (Num t) \<and> t \<noteq> 0 \<and>
            map_of rate_from ''USD'' = Some (Num f) \<longrightarrow>
            (\<exists>d. get_rate pf w iso_from iso_to = Inr d \<and>
                 map_of d iso_to = Some (Num (pf ((1 / t) * f)))))
    else get_rate pf w iso_from iso_to = Inl CurrencyDoesNotExistError)"
proof (cases "check_rate_exists w iso_from iso_to")
  case False
  then show ?thesis by (simp add: get_rate_unresolvable)
next
  case True
  have "\<exists>d. get_rate pf w iso_from iso_to = Inr d \<and>
            map_of d iso_to = Some (Num (pf ((1 / t) * f)))"
    if "parser_rate w iso_from = Inr rate_from" "parser_rate w iso_to = Inr rate_to"
       "map_of rate_to ''USD'' = Some (Num t)" "t \<noteq> 0"
       "map_of rate_from ''USD'' = Some (Num f)"
    for rate_from rate_to t f
  proof (intro exI conjI)
    show "get_rate pf w iso_from iso_to =
            Inr (dict_set [(iso_from, Num 1)] iso_to (Num (pf ((1 / t) * f))))"
      by (rule get_rate_value [OF True that])
    show "map_of (dict_set [(iso_from, Num 1)] iso_to (Num (pf ((1 / t) * f)))) iso_to =
            Some (Num (pf ((1 / t) * f)))"
      by (rule map_of_dict_set)
  qed
  then show ?thesis
    using True get_rate_resolvable_cases [OF True, of pf] by (simp only: if_True) blast
qed

text \<open>
  C5 as stated fails: on \<open>btc_page_changed\<close> both \<^verbatim>\<open>BTC\<close> (dedicated parser) and \<^verbatim>\<open>USD\<close>
  (default parser) are resolvable, and \<^verbatim>\<open>get_rate('BTC', 'USD')\<close> raises
  \<^verbatim>\<open>ParsingError\<close> instead of returning a value.
\<close>

theorem get_rate_resolvable_parsing_error:
  "check_rate_exists btc_page_changed ''BTC'' ''USD'' \<and>
   get_rate (prettify_float 4) btc_page_changed ''BTC'' ''USD'' = Inl ParsingError"
  by (simp add: get_rate_def check_rate_exists_def resolvable_def get_rate_body_def
      parser_rate_def btc_page_changed_def dedicated_get_rate_def)

text \<open>One Bitcoin in euros, at 20000 USD the Bitcoin and 5/4 USD the euro.\<close>

theorem get_rate_outcomes_witness:
  "check_rate_exists btc_eur_world ''BTC'' ''EUR'' \<and>
   parser_rate btc_eur_world ''BTC'' = Inr [(''BTC'', Num 1), (''USD'', Num 20000)] \<and>
   parser_rate btc_eur_world ''EUR'' = Inr [(''EUR'', Num 1), (''USD'', Num (5 / 4))] \<and>
   (\<exists>d. get_rate (prettify_float 4) btc_eur_world ''BTC'' ''EUR'' = Inr d \<and>
        map_of d ''EUR'' = Some (Num 16000))"
proof -
  have c: "check_rate_exists btc_eur_world ''BTC'' ''EUR''"
    by (simp add: check_rate_exists_def resolvable_def btc_eur_world_def)
  have w1: "parser_rate btc_eur_world ''BTC'' = Inr [(''BTC'', Num 1), (''USD'', Num 20000)]"
    by (simp add: parser_rate_def btc_eur_world_def dedicated_get_rate_def)
  have w2: "parser_rate btc_eur_world ''EUR'' = Inr [(''EUR'', Num 1), (''USD'', Num (5 / 4))]"
    by (simp add: parser_rate_def btc_eur_world_def default_get_rate_def upper_def
        upper_char_def)
  have w3: "prettify_float 4 (1 / (5 / 4) * 20000) = 16000"
    by code_simp
  have "\<exists>d. get_rate (prettify_float 4) btc_eur_world ''BTC'' ''EUR'' = Inr d \<and>
        map_of d ''EUR'' = Some (Num (prettify_float 4 (1 / (5 / 4) * 20000)))"
  proof -
    have m1: "map_of [(''EUR'', Num 1), (''USD'', Num (5 / 4))] ''USD'' = Some (Num (5 / 4))"
      by simp
    have m2: "map_of [(''BTC'', Num 1), (''USD'', Num 20000)] ''USD'' = Some (Num 20000)"
      by simp
    have nz: "(5 / 4 :: rat) \<noteq> 0" by simp
    have "((\<exists>d. get_rate (prettify_float 4) btc_eur_world ''BTC'' ''EUR'' = Inr d) \<or>
             get_rate (prettify_float 4) btc_eur_world ''BTC'' ''EUR'' = Inl ParsingError) \<and>
            (\<forall>rate_from rate_to t f.
               parser_rate btc_eur_world ''BTC'' = Inr rate_from \<and>
               parser_rate btc_eur_world ''EUR'' = Inr rate_to \<and>
               map_of rate_to ''USD'' = Some (Num t) \<and> t \<noteq> 0 \<and>
               map_of rate_from ''USD'' = Some (Num f) \<longrightarrow>
               (\<exists>d. get_rate (prettify_float 4) btc_eur_world ''BTC'' ''EUR'' = Inr d \<and>
                    map_of d ''EUR'' = Some (Num (prettify_float 4 ((1 / t) * f)))))"
      using get_rate_outcomes [of btc_eur_world "''BTC''" "''EUR''" "prettify_float 4"]
      unfolding if_P [OF c] .
    then have "\<forall>rate_from rate_to t f.
               parser_rate btc_eur_world ''BTC'' = Inr rate_from \<and>
               parser_rate btc_eur_world ''EUR'' = Inr rate_to \<and>
               map_of rate_to ''USD'' = Some (Num t) \<and> t \<noteq> 0 \<and>
               map_of rate_from ''USD'' = Some (Num f) \<longrightarrow>
               (\<exists>d. get_rate (prettify_float 4) btc_eur_world ''BTC'' ''EUR'' = Inr d \<and>
                    map_of d ''EUR'' = Some (Num (prettify_float 4 ((1 / t) * f))))"
      by (rule conjunct2)
    with w1 w2 m1 m2 nz show ?thesis by blast
  qed
  then show ?thesis using c w1 w2 by (simp only: w3)
qed

section \<open>Properties of the logger\<close>














section \<open>Properties of main.py\<close>

lemma infinite_loop_retries:
  "infinite_loop (update_rates_fails_once ''main_bot.update_rates'') 0 [] =
     Some (2, [OtherError ''ConnectionError''])"
  by (subst infinite_loop.simps, simp add: update_rates_fails_once_def,
      subst infinite_loop.simps, simp add: update_rates_fails_once_def)

text \<open>
  C9. The entry point passes each target to its thread as it is: the body is called
  once, and a body that raises ends its thread and is not called again. Here
  \<^verbatim>\<open>update_rates\<close> raises at its first call: its thread dies after that one call.
\<close>

theorem start_threads_no_retry:
  "start_threads update_rates_fails_once =
     [(''main_bot.check_alarm_times'', 1, Finished),
      (''main_bot.update_rates'', 1, Died (OtherError ''ConnectionError'')),
      (''main_bot.check_premium_ended'', 1, Finished),
      (''main_bot.verify_predictions'', 1, Finished),
      (''techsupport_bot.main'', 1, Finished),
      (''main_bot.bot.infinity_polling'', 1, Finished)]"
  by (simp add: start_threads_def targets_def thread_run_def update_rates_fails_once_def)


end
